theory Spec2Isabelle
  imports Complex_Main
begin

section \<open>JavaScript values and errors\<close>

text \<open>
  Values produced by \<^verbatim>\<open>JSON.parse\<close> and \<^verbatim>\<open>response.json()\<close>, together with
  \<^verbatim>\<open>undefined\<close>, which a property read yields for a property that is not there.
  An object lists its own properties; \<^verbatim>\<open>JSON.parse\<close> leaves each key at most once.
\<close>

datatype jsval =
    JUndefined
  | JNull
  | JBool bool
  | JNum real
  | JStr string
  | JArr "jsval list"
  | JObj "(string \<times> jsval) list"

datatype js_error = SyntaxError | TypeError | NetworkError | Error string

datatype completion = Returned | Threw js_error

text \<open>The conversion to boolean that \<^verbatim>\<open>if (x)\<close>, \<^verbatim>\<open>!x\<close>, \<^verbatim>\<open>x && y\<close> and \<^verbatim>\<open>x || y\<close> apply.\<close>

fun truthy :: "jsval \<Rightarrow> bool" where
  "truthy JUndefined = False"
| "truthy JNull = False"
| "truthy (JBool b) = b"
| "truthy (JNum n) = (n \<noteq> 0)"
| "truthy (JStr s) = (s \<noteq> [])"
| "truthy (JArr xs) = True"
| "truthy (JObj kvs) = True"

text \<open>
  The read \<^verbatim>\<open>data.key\<close>, for the keys the program reads (\<^verbatim>\<open>type\<close>, \<^verbatim>\<open>artifact_path\<close>,
  \<^verbatim>\<open>steps\<close>, \<^verbatim>\<open>status\<close>, \<^verbatim>\<open>approved\<close>, \<^verbatim>\<open>comments\<close>): a TypeError on \<^verbatim>\<open>null\<close> and
  \<^verbatim>\<open>undefined\<close>, the property of an object, \<^verbatim>\<open>undefined\<close> elsewhere.
\<close>

fun get_prop :: "jsval \<Rightarrow> string \<Rightarrow> js_error + jsval" where
  "get_prop JUndefined k = Inl TypeError"
| "get_prop JNull k = Inl TypeError"
| "get_prop (JObj kvs) k = Inr (case map_of kvs k of None \<Rightarrow> JUndefined | Some v \<Rightarrow> v)"
| "get_prop v k = Inr JUndefined"

text \<open>Truthiness of a \<^verbatim>\<open>string | null | undefined\<close> variable such as \<^verbatim>\<open>projectId\<close>.\<close>

fun truthy_str :: "string option \<Rightarrow> bool" where
  "truthy_str None = False"
| "truthy_str (Some s) = (s \<noteq> [])"

text \<open>\<^verbatim>\<open>xs.slice(-n)\<close>: the last \<open>n\<close> elements, all of them when there are fewer.\<close>

definition slice_from_end :: "nat \<Rightarrow> 'a list \<Rightarrow> 'a list" where
  "slice_from_end n xs = drop (length xs - n) xs"

section \<open>Requests, responses and the trace of effects\<close>

record message =
  role :: string
  content :: string

datatype request =
    GetFiles string
  | GetStatus string
  | GetFile string string int
  | PostFile string string string
  | PostChat string string "message list"
  | PostReview string "string list"

datatype command =
    Fetch request
  | PlayClick
  | PlaySuccess
  | PlayHover
  | OpenSocket string
  | CloseSocket
  | AlertApproved
  | AlertComments "jsval list"
  | ConsoleError js_error

record response =
  ok :: bool
  body :: string

text \<open>What \<^verbatim>\<open>await fetch(...)\<close> gives: a rejection, or a response of any status.\<close>

datatype fetch_outcome = Rejected | Responded response

section \<open>The state of ProjectPage\<close>

datatype tab = EditorTab | DagTab

record page_state =
  files :: jsval
  selectedFile :: "string option"
  fileContent :: string
  version :: int
  logs :: "jsval list"
  steps :: jsval
  status :: jsval
  activeTab :: tab
  selectedFileRef :: "string option"

definition initial_page :: page_state where
  "initial_page =
     \<lparr>files = JArr [], selectedFile = None, fileContent = [], version = 1, logs = [],
      steps = JArr [], status = JStr [], activeTab = EditorTab, selectedFileRef = None\<rparr>"

text \<open>
  What the callbacks of one render close over: \<^verbatim>\<open>fetchFiles\<close> and \<^verbatim>\<open>fetchStatus\<close> capture
  \<^verbatim>\<open>projectId\<close>, \<^verbatim>\<open>fetchFileContent\<close> captures \<^verbatim>\<open>projectId\<close> and \<^verbatim>\<open>version\<close>.
\<close>

record closure =
  cl_projectId :: "string option"
  cl_version :: int

section \<open>The three reads\<close>

text \<open>
  An async function runs to its first \<^verbatim>\<open>await\<close> when it is called (the start: the
  request it issues, if any) and goes on when the awaited promise settles (the resume:
  the state it writes and how it completes). \<^verbatim>\<open>JSON_parse\<close> is the platform's parser,
  \<open>None\<close> where it throws.
\<close>

definition fetchFiles_start :: "closure \<Rightarrow> command list" where
  "fetchFiles_start cl =
     (case cl_projectId cl of
        None \<Rightarrow> []
      | Some pid \<Rightarrow> if pid = [] then [] else [Fetch (GetFiles pid)])"

definition fetchFiles_resume ::
  "(string \<Rightarrow> jsval option) \<Rightarrow> fetch_outcome \<Rightarrow> page_state \<Rightarrow> page_state \<times> completion" where
  "fetchFiles_resume JSON_parse out st =
     (case out of
        Rejected \<Rightarrow> (st, Threw NetworkError)
      | Responded r \<Rightarrow>
          if ok r then
            (case JSON_parse (body r) of
               None \<Rightarrow> (st, Threw SyntaxError)
             | Some v \<Rightarrow> (st\<lparr>files := v\<rparr>, Returned))
          else (st, Returned))"

definition fetchStatus_start :: "closure \<Rightarrow> command list" where
  "fetchStatus_start cl =
     (case cl_projectId cl of
        None \<Rightarrow> []
      | Some pid \<Rightarrow> if pid = [] then [] else [Fetch (GetStatus pid)])"

definition fetchStatus_resume ::
  "(string \<Rightarrow> jsval option) \<Rightarrow> fetch_outcome \<Rightarrow> page_state \<Rightarrow> page_state \<times> completion" where
  "fetchStatus_resume JSON_parse out st =
     (case out of
        Rejected \<Rightarrow> (st, Threw NetworkError)
      | Responded r \<Rightarrow>
          if ok r then
            (case JSON_parse (body r) of
               None \<Rightarrow> (st, Threw SyntaxError)
             | Some data \<Rightarrow>
                 (case get_prop data ''steps'' of
                    Inl e \<Rightarrow> (st, Threw e)
                  | Inr ss \<Rightarrow>
                      (case get_prop data ''status'' of
                         Inl e \<Rightarrow> (st\<lparr>steps := ss\<rparr>, Threw e)
                       | Inr s \<Rightarrow> (st\<lparr>steps := ss, status := s\<rparr>, Returned))))
          else (st, Returned))"

text \<open>\<^verbatim>\<open>versionOverride ?? version\<close>, then the request for that path and version.\<close>

definition fetchFileContent_start :: "closure \<Rightarrow> string \<Rightarrow> int option \<Rightarrow> command list" where
  "fetchFileContent_start cl path versionOverride =
     (case cl_projectId cl of
        None \<Rightarrow> []
      | Some pid \<Rightarrow>
          if pid = [] then []
          else
            (let versionToUse = (case versionOverride of None \<Rightarrow> cl_version cl | Some v \<Rightarrow> v)
             in [Fetch (GetFile pid path versionToUse)]))"

text \<open>
  The rest of \<^verbatim>\<open>fetchFileContent\<close> after the response has come: it reads neither the
  path nor the version it asked for, nor the selection.
\<close>

definition fetchFileContent_resume :: "fetch_outcome \<Rightarrow> page_state \<Rightarrow> page_state \<times> completion" where
  "fetchFileContent_resume out st =
     (case out of
        Rejected \<Rightarrow> (st, Threw NetworkError)
      | Responded r \<Rightarrow>
          if ok r then (st\<lparr>fileContent := body r\<rparr>, Returned)
          else (st, Returned))"

section \<open>The stream handler\<close>

text \<open>
  The body of the \<^verbatim>\<open>try\<close> in \<^verbatim>\<open>ws.onmessage\<close>. The handler closes over the callbacks of
  the render that opened the socket (\<open>cl\<close>) and reads the selection from
  \<^verbatim>\<open>selectedFileRef.current\<close>. The calls of the async functions cannot throw here: they
  return promises. \<^verbatim>\<open>soundManager.playSuccess()\<close> is recorded as an effect that returns.
\<close>

definition onmessage_try ::
  "(string \<Rightarrow> jsval option) \<Rightarrow> closure \<Rightarrow> string \<Rightarrow> page_state
     \<Rightarrow> page_state \<times> command list \<times> completion" where
  "onmessage_try JSON_parse cl raw st =
     (case JSON_parse raw of
        None \<Rightarrow> (st, [], Threw SyntaxError)
      | Some data \<Rightarrow>
          (case get_prop data ''type'' of
             Inl e \<Rightarrow> (st, [], Threw e)
           | Inr ty \<Rightarrow>
               if ty = JStr ''event'' then
                 (let st' = st\<lparr>logs := slice_from_end 199 (logs st) @ [data]\<rparr>;
                      cs = fetchStatus_start cl
                  in case get_prop data ''artifact_path'' of
                       Inl e \<Rightarrow> (st', cs, Threw e)
                     | Inr ap \<Rightarrow>
                         if truthy ap then
                           (st',
                            cs @ fetchFiles_start cl @ [PlaySuccess] @
                              (case selectedFileRef st of
                                 None \<Rightarrow> []
                               | Some sel \<Rightarrow>
                                   if sel \<noteq> [] \<and> ap = JStr sel
                                   then fetchFileContent_start cl sel None
                                   else []),
                            Returned)
                         else (st', cs, Returned))
               else (st, [], Returned)))"

text \<open>The empty \<^verbatim>\<open>catch\<close>: whatever was thrown is dropped, what was done before stays.\<close>

definition ws_onmessage ::
  "(string \<Rightarrow> jsval option) \<Rightarrow> closure \<Rightarrow> string \<Rightarrow> page_state
     \<Rightarrow> page_state \<times> command list \<times> completion" where
  "ws_onmessage JSON_parse cl raw st =
     (case onmessage_try JSON_parse cl raw st of
        (st', cs, c) \<Rightarrow> (st', cs, Returned))"

text \<open>A message is accepted when it parses to a value whose \<^verbatim>\<open>type\<close> is the string "event".\<close>

definition accepted :: "(string \<Rightarrow> jsval option) \<Rightarrow> string \<Rightarrow> bool" where
  "accepted JSON_parse raw =
     (case JSON_parse raw of
        None \<Rightarrow> False
      | Some data \<Rightarrow> get_prop data ''type'' = Inr (JStr ''event''))"

section \<open>The page as a running system\<close>

text \<open>
  The page state, the \<^verbatim>\<open>projectId\<close> the router gives, the \<^verbatim>\<open>value\<close> buffer of the
  Editor component (\<open>None\<close> while the Editor is not mounted: it is rendered only under the
  editor tab) and the closure of the handler of the open socket, if one is open.
\<close>

record sys =
  page :: page_state
  projectId :: "string option"
  editorValue :: "string option"
  socket :: "closure option"

definition render_closure :: "sys \<Rightarrow> closure" where
  "render_closure s = \<lparr>cl_projectId = projectId s, cl_version = version (page s)\<rparr>"

text \<open>
  The four effects of ProjectPage after a render, each run when one of its dependencies
  has changed; the callbacks change identity exactly when what they capture changes. The
  cleanup of the socket effect (\<^verbatim>\<open>ws.close()\<close>) comes first, then the bodies in the order
  of the source.
\<close>

definition run_effects :: "sys \<Rightarrow> sys \<Rightarrow> sys \<times> command list" where
  "run_effects old new =
     (let cl = render_closure new;
          pid_changed = (projectId old \<noteq> projectId new);
          sel_changed = (selectedFile (page old) \<noteq> selectedFile (page new));
          ver_changed = (version (page old) \<noteq> version (page new));
          cleanup = (if pid_changed \<or> ver_changed
                     then (case socket old of None \<Rightarrow> [] | Some c \<Rightarrow> [CloseSocket])
                     else []);
          s0 = (if sel_changed
                then new\<lparr>page := (page new)\<lparr>selectedFileRef := selectedFile (page new)\<rparr>\<rparr>
                else new);
          c1 = (if pid_changed then fetchFiles_start cl @ fetchStatus_start cl else []);
          c2 = (if sel_changed \<or> pid_changed \<or> ver_changed
                then (case selectedFile (page new) of
                        None \<Rightarrow> []
                      | Some sel \<Rightarrow> if sel = [] then [] else fetchFileContent_start cl sel None)
                else []);
          s3 = (if pid_changed \<or> ver_changed
                then (case projectId new of
                        None \<Rightarrow> s0\<lparr>socket := None\<rparr>
                      | Some pid \<Rightarrow>
                          if pid = [] then s0\<lparr>socket := None\<rparr> else s0\<lparr>socket := Some cl\<rparr>)
                else s0);
          c3 = (if pid_changed \<or> ver_changed
                then (case projectId new of
                        None \<Rightarrow> []
                      | Some pid \<Rightarrow> if pid = [] then [] else [OpenSocket pid])
                else [])
      in (s3, cleanup @ c1 @ c2 @ c3))"

text \<open>
  The Editor component: \<^verbatim>\<open>useState(content)\<close> when it mounts, and the effect
  \<^verbatim>\<open>setValue(content)\<close> whenever the \<^verbatim>\<open>content\<close> prop has changed.
\<close>

definition editor_sync :: "sys \<Rightarrow> sys \<Rightarrow> string option" where
  "editor_sync old new =
     (case activeTab (page new) of
        DagTab \<Rightarrow> None
      | EditorTab \<Rightarrow>
          (case editorValue old of
             None \<Rightarrow> Some (fileContent (page new))
           | Some v \<Rightarrow>
               if fileContent (page old) \<noteq> fileContent (page new)
               then Some (fileContent (page new))
               else Some v))"

definition commit :: "sys \<Rightarrow> sys \<Rightarrow> sys \<times> command list" where
  "commit old new =
     (case run_effects old new of
        (s, cs) \<Rightarrow> (s\<lparr>editorValue := editor_sync old new\<rparr>, cs))"

text \<open>The first render: the initial state, and every effect runs.\<close>

definition mount :: "string option \<Rightarrow> sys \<times> command list" where
  "mount pid =
     (let s = \<lparr>page = initial_page, projectId = pid, editorValue = Some [], socket = None\<rparr>;
          cl = render_closure s
      in case pid of
           None \<Rightarrow> (s, [])
         | Some p \<Rightarrow>
             if p = [] then (s, [])
             else (s\<lparr>socket := Some cl\<rparr>,
                   fetchFiles_start cl @ fetchStatus_start cl @ [OpenSocket p]))"

text \<open>
  What the Editor renders for the file: its placeholder (\<open>None\<close>) when \<^verbatim>\<open>path\<close> is null
  or empty, the buffer otherwise.
\<close>

definition editor_shown :: "sys \<Rightarrow> string option" where
  "editor_shown s =
     (case selectedFile (page s) of
        None \<Rightarrow> None
      | Some p \<Rightarrow> if p = [] then None else editorValue s)"

text \<open>
  What can happen to the page: the user's actions in the file tree, the tabs and the
  editor (which takes input only while it shows a file), a route change, a message on
  the socket, and the settling of a pending read. A settled content fetch carries the
  request it answers. A route change gives the same mounted component a new
  \<^verbatim>\<open>router.query.id\<close>: the source has no key and no reset that would give it a fresh
  state.
\<close>

datatype input =
    SelectFile "string option"
  | VersionChange int
  | SwitchTab tab
  | Navigate "string option"
  | EditorChange "string option"
  | WsMessage string
  | FilesSettled fetch_outcome
  | StatusSettled fetch_outcome
  | ContentSettled request fetch_outcome

fun step :: "(string \<Rightarrow> jsval option) \<Rightarrow> input \<Rightarrow> sys \<Rightarrow> sys \<times> command list" where
  "step JSON_parse (SelectFile p) s =
     (case commit s (s\<lparr>page := (page s)\<lparr>selectedFile := p\<rparr>\<rparr>) of
        (s', cs) \<Rightarrow> (s', PlayHover # cs))"
| "step JSON_parse (VersionChange v) s = commit s (s\<lparr>page := (page s)\<lparr>version := v\<rparr>\<rparr>)"
| "step JSON_parse (SwitchTab t) s =
     (case commit s (s\<lparr>page := (page s)\<lparr>activeTab := t\<rparr>\<rparr>) of
        (s', cs) \<Rightarrow> (s', PlayHover # cs))"
| "step JSON_parse (Navigate pid) s = commit s (s\<lparr>projectId := pid\<rparr>)"
| "step JSON_parse (EditorChange nextValue) s =
     (case editor_shown s of
        None \<Rightarrow> (s, [])
      | Some v \<Rightarrow>
          (s\<lparr>editorValue := Some (case nextValue of None \<Rightarrow> [] | Some n \<Rightarrow> n)\<rparr>, []))"
| "step JSON_parse (WsMessage raw) s =
     (case socket s of
        None \<Rightarrow> (s, [])
      | Some cl \<Rightarrow>
          (case ws_onmessage JSON_parse cl raw (page s) of
             (p', cs, c) \<Rightarrow>
               (case commit s (s\<lparr>page := p'\<rparr>) of (s', cs') \<Rightarrow> (s', cs @ cs'))))"
| "step JSON_parse (FilesSettled out) s =
     commit s (s\<lparr>page := fst (fetchFiles_resume JSON_parse out (page s))\<rparr>)"
| "step JSON_parse (StatusSettled out) s =
     commit s (s\<lparr>page := fst (fetchStatus_resume JSON_parse out (page s))\<rparr>)"
| "step JSON_parse (ContentSettled req out) s =
     commit s (s\<lparr>page := fst (fetchFileContent_resume out (page s))\<rparr>)"

text \<open>A run: the state after a sequence of inputs, and everything issued on the way.\<close>

fun run :: "(string \<Rightarrow> jsval option) \<Rightarrow> input list \<Rightarrow> sys \<times> command list \<Rightarrow> sys \<times> command list" where
  "run JSON_parse [] sc = sc"
| "run JSON_parse (i # is) (s, cs) =
     (case step JSON_parse i s of (s', cs') \<Rightarrow> run JSON_parse is (s', cs @ cs'))"

text \<open>
  The events a run hands to the log: the accepted messages that arrive while a socket is
  open, in arrival order.
\<close>

fun delivered :: "(string \<Rightarrow> jsval option) \<Rightarrow> input list \<Rightarrow> sys \<Rightarrow> jsval list" where
  "delivered JSON_parse [] s = []"
| "delivered JSON_parse (i # is) s =
     (case i of
        WsMessage raw \<Rightarrow>
          (case socket s of
             None \<Rightarrow> []
           | Some cl \<Rightarrow> if accepted JSON_parse raw then [the (JSON_parse raw)] else [])
      | _ \<Rightarrow> []) @ delivered JSON_parse is (fst (step JSON_parse i s))"

text \<open>
  After every commit the ref holds the selection and the open socket's handler closes
  over the callbacks of the current render.
\<close>

definition synced :: "sys \<Rightarrow> bool" where
  "synced s =
     (selectedFileRef (page s) = selectedFile (page s) \<and>
      socket s = (if truthy_str (projectId s) then Some (render_closure s) else None))"

section \<open>The write actions\<close>

text \<open>
  \<^verbatim>\<open>handleSave\<close>, given how the POST and then the listing request settle. Up to the first
  \<^verbatim>\<open>await\<close>: the guard, the click sound and the POST.
\<close>

definition handleSave_start :: "closure \<Rightarrow> string option \<Rightarrow> string \<Rightarrow> command list" where
  "handleSave_start cl sel content' =
     (case cl_projectId cl of
        None \<Rightarrow> []
      | Some pid \<Rightarrow>
          if pid = [] then []
          else (case sel of
                  None \<Rightarrow> []
                | Some f \<Rightarrow> if f = [] then [] else [PlayClick, Fetch (PostFile pid f content')]))"

definition handleSave ::
  "(string \<Rightarrow> jsval option) \<Rightarrow> string \<Rightarrow> fetch_outcome \<Rightarrow> fetch_outcome \<Rightarrow> sys
     \<Rightarrow> sys \<times> command list \<times> completion" where
  "handleSave JSON_parse content' post_out files_out s =
     (case handleSave_start (render_closure s) (selectedFile (page s)) content' of
        [] \<Rightarrow> (s, [], Returned)
      | c # cs \<Rightarrow>
          (case post_out of
             Rejected \<Rightarrow> (s, c # cs, Threw NetworkError)
           | Responded r \<Rightarrow>
               (case fetchFiles_resume JSON_parse files_out (page s) of
                  (p', fin) \<Rightarrow>
                    (case commit s (s\<lparr>page := p'\<rparr>) of
                       (s', cs') \<Rightarrow>
                         (s', (c # cs) @ fetchFiles_start (render_closure s) @ cs', fin)))))"

text \<open>
  The Save button of the Editor: \<^verbatim>\<open>onSave(value)\<close> inside \<^verbatim>\<open>try ... finally\<close>, which
  catches nothing.
\<close>

definition editor_handleSave ::
  "(string \<Rightarrow> jsval option) \<Rightarrow> fetch_outcome \<Rightarrow> fetch_outcome \<Rightarrow> sys
     \<Rightarrow> sys \<times> command list \<times> completion" where
  "editor_handleSave JSON_parse post_out files_out s =
     (case editorValue s of
        None \<Rightarrow> (s, [], Returned)
      | Some v \<Rightarrow> handleSave JSON_parse v post_out files_out s)"

text \<open>\<^verbatim>\<open>handleChat\<close>: what it issues, and the value it returns or the error it throws.\<close>

definition handleChat ::
  "(string \<Rightarrow> jsval option) \<Rightarrow> closure \<Rightarrow> string \<Rightarrow> message list \<Rightarrow> fetch_outcome
     \<Rightarrow> command list \<times> (js_error + jsval)" where
  "handleChat JSON_parse cl msg history out =
     (case cl_projectId cl of
        None \<Rightarrow> ([], Inr (JStr ''Error: No project ID''))
      | Some pid \<Rightarrow>
          if pid = [] then ([], Inr (JStr ''Error: No project ID''))
          else
            (case out of
               Rejected \<Rightarrow> ([Fetch (PostChat pid msg history)], Inl NetworkError)
             | Responded r \<Rightarrow>
                 if ok r then
                   (case JSON_parse (body r) of
                      None \<Rightarrow> ([Fetch (PostChat pid msg history)], Inl SyntaxError)
                    | Some data \<Rightarrow>
                        (Fetch (PostChat pid msg history) # fetchFiles_start cl,
                         get_prop data ''response''))
                 else ([Fetch (PostChat pid msg history)],
                       Inl (Error ''Failed to send message''))))"

definition fix_prompt :: "string \<Rightarrow> string \<Rightarrow> string" where
  "fix_prompt sel text =
     ''I am having trouble with this file: '' @ sel @ ''.'' @ [CHR 0x0A, CHR 0x0A] @
     ''Content:'' @ [CHR 0x0A] @ text @ [CHR 0x0A, CHR 0x0A] @
     ''Please analyze it for errors (syntax, logic, or best practices) and fix them. '' @
     ''Return the corrected file content.''"

definition handleFix ::
  "(string \<Rightarrow> jsval option) \<Rightarrow> closure \<Rightarrow> page_state \<Rightarrow> fetch_outcome
     \<Rightarrow> command list \<times> completion" where
  "handleFix JSON_parse cl st out =
     (case selectedFile st of
        None \<Rightarrow> ([], Returned)
      | Some sel \<Rightarrow>
          if sel = [] then ([], Returned)
          else if fileContent st = [] then ([], Returned)
          else
            (let prompt = fix_prompt sel (fileContent st)
             in case handleChat JSON_parse cl prompt [\<lparr>role = ''user'', content = prompt\<rparr>] out of
                  (cs, Inl e) \<Rightarrow> (PlayClick # cs @ [ConsoleError e], Returned)
                | (cs, Inr v) \<Rightarrow> (PlayClick # cs @ [PlaySuccess], Returned)))"

text \<open>\<^verbatim>\<open>result.comments.join(...)\<close> is a TypeError unless \<^verbatim>\<open>comments\<close> is an array.\<close>

fun review_comments :: "js_error + jsval \<Rightarrow> command list" where
  "review_comments (Inl e) = [ConsoleError e]"
| "review_comments (Inr (JArr xs)) = [AlertComments xs]"
| "review_comments (Inr v) = [ConsoleError TypeError]"

definition handleDeepReview ::
  "(string \<Rightarrow> jsval option) \<Rightarrow> closure \<Rightarrow> string option \<Rightarrow> fetch_outcome
     \<Rightarrow> command list \<times> completion" where
  "handleDeepReview JSON_parse cl sel out =
     (case cl_projectId cl of
        None \<Rightarrow> ([], Returned)
      | Some pid \<Rightarrow>
          if pid = [] then ([], Returned)
          else
            (case sel of
               None \<Rightarrow> ([], Returned)
             | Some f \<Rightarrow>
                 if f = [] then ([], Returned)
                 else
                   ([PlayClick, Fetch (PostReview pid [f])] @
                    (case out of
                       Rejected \<Rightarrow> [ConsoleError NetworkError]
                     | Responded r \<Rightarrow>
                         if ok r then
                           (case JSON_parse (body r) of
                              None \<Rightarrow> [ConsoleError SyntaxError]
                            | Some result \<Rightarrow>
                                PlaySuccess #
                                (case get_prop result ''approved'' of
                                   Inl e \<Rightarrow> [ConsoleError e]
                                 | Inr a \<Rightarrow>
                                     if truthy a then [AlertApproved]
                                     else review_comments (get_prop result ''comments'')))
                         else []),
                    Returned)))"

section \<open>Cohorts of the execution graph\<close>

record Step =
  step_id :: string
  step_name :: string
  step_agent :: string
  step_status :: string
  parallel_group :: "string option"

text \<open>\<^verbatim>\<open>step.parallel_group || step.id\<close>: the group unless it is missing, null or empty.\<close>

definition group_key :: "Step \<Rightarrow> string" where
  "group_key st =
     (case parallel_group st of
        None \<Rightarrow> step_id st
      | Some g \<Rightarrow> if g = [] then step_id st else g)"

text \<open>
  A JavaScript \<^verbatim>\<open>Map\<close> keeps its keys in the order of their first insertion: a list of
  entries, with \<^verbatim>\<open>has\<close>, \<^verbatim>\<open>set\<close>, and \<^verbatim>\<open>get(k).push(x)\<close>. The push is only ever
  made on a key that the lines before it have put into the map, so the TypeError of a
  push on a missing key has no branch here.
\<close>

fun map_has :: "(string \<times> 'v) list \<Rightarrow> string \<Rightarrow> bool" where
  "map_has [] k = False"
| "map_has ((k', v) # m) k = (if k' = k then True else map_has m k)"

fun map_set :: "(string \<times> 'v) list \<Rightarrow> string \<Rightarrow> 'v \<Rightarrow> (string \<times> 'v) list" where
  "map_set [] k v = [(k, v)]"
| "map_set ((k', v') # m) k v = (if k' = k then (k, v) # m else (k', v') # map_set m k v)"

fun map_push :: "(string \<times> 'v list) list \<Rightarrow> string \<Rightarrow> 'v \<Rightarrow> (string \<times> 'v list) list" where
  "map_push [] k x = []"
| "map_push ((k', xs) # m) k x =
     (if k' = k then (k', xs @ [x]) # m else (k', xs) # map_push m k x)"

definition add_step :: "(string \<times> Step list) list \<Rightarrow> Step \<Rightarrow> (string \<times> Step list) list" where
  "add_step groups st =
     (let g = group_key st;
          groups' = (if map_has groups g then groups else map_set groups g [])
      in map_push groups' g st)"

definition group_steps :: "Step list \<Rightarrow> (string \<times> Step list) list" where
  "group_steps xs = foldl add_step [] xs"

text \<open>\<^verbatim>\<open>Array.from(groups.values())\<close>.\<close>

definition groupsArray :: "Step list \<Rightarrow> Step list list" where
  "groupsArray xs = map snd (group_steps xs)"

text \<open>
  The specification's order of cohorts: each key once, at the place of its first
  appearance.
\<close>

fun first_appearances :: "'a list \<Rightarrow> 'a list" where
  "first_appearances [] = []"
| "first_appearances (x # xs) = x # removeAll x (first_appearances xs)"

text \<open>The requests for a file's content among the effects.\<close>

fun is_content_fetch :: "command \<Rightarrow> bool" where
  "is_content_fetch (Fetch (GetFile pid path v)) = True"
| "is_content_fetch c = False"

section \<open>Facts about the model\<close>

lemma length_slice_from_end: "length (slice_from_end n xs) = min n (length xs)"
  by (auto simp add: slice_from_end_def)

lemma slice_from_end_snoc:
  "slice_from_end 200 (slice_from_end 199 xs @ x # ys) = slice_from_end 200 (xs @ x # ys)"
proof (cases "length xs \<le> 199")
  case True
  then show ?thesis by (simp add: slice_from_end_def)
next
  case False
  then have "length xs - 199 + 199 = length xs" by simp
  then show ?thesis by (simp add: slice_from_end_def add.commute)
qed

lemma commit_page:
  "page (fst (commit old new)) =
     (page new)\<lparr>selectedFileRef :=
        (if selectedFile (page old) \<noteq> selectedFile (page new)
         then selectedFile (page new) else selectedFileRef (page new))\<rparr>"
  by (simp add: commit_def run_effects_def Let_def split: option.splits prod.splits)

lemma commit_logs: "logs (page (fst (commit old new))) = logs (page new)"
  by (simp add: commit_page)

lemma ws_onmessage_logs:
  "logs (fst (ws_onmessage P cl raw st)) =
     (if accepted P raw then slice_from_end 199 (logs st) @ [the (P raw)] else logs st)"
  by (auto simp add: ws_onmessage_def onmessage_try_def accepted_def Let_def
      split: option.splits sum.splits prod.splits)

lemma step_logs:
  "logs (page (fst (step P i s))) =
     (case i of
        WsMessage raw \<Rightarrow>
          (case socket s of
             None \<Rightarrow> logs (page s)
           | Some cl \<Rightarrow>
               if accepted P raw then slice_from_end 199 (logs (page s)) @ [the (P raw)]
               else logs (page s))
      | _ \<Rightarrow> logs (page s))"
proof (cases i)
  case (WsMessage raw)
  show ?thesis
  proof (cases "socket s")
    case None
    with WsMessage show ?thesis by simp
  next
    case (Some cl)
    have "logs (page (fst (step P i s))) = logs (fst (ws_onmessage P cl raw (page s)))"
      using WsMessage Some by (simp add: case_prod_beta commit_logs)
    with WsMessage Some show ?thesis
      by (simp add: ws_onmessage_logs)
  qed
next
  case (FilesSettled out)
  then show ?thesis
    by (simp add: commit_logs fetchFiles_resume_def split: fetch_outcome.splits option.splits)
next
  case (StatusSettled out)
  then show ?thesis
    by (simp add: commit_logs fetchStatus_resume_def
        split: fetch_outcome.splits option.splits sum.splits)
next
  case (ContentSettled req out)
  then show ?thesis
    by (simp add: commit_logs fetchFileContent_resume_def split: fetch_outcome.splits)
next
  case (EditorChange nv)
  then show ?thesis by (simp split: option.splits)
qed (simp_all add: case_prod_beta commit_logs)

lemma run_logs:
  "length (logs (page s)) \<le> 200 \<Longrightarrow>
   logs (page (fst (run P is (s, cs)))) =
     slice_from_end 200 (logs (page s) @ delivered P is s)"
proof (induction "is" arbitrary: s cs)
  case Nil
  then show ?case by (simp add: slice_from_end_def)
next
  case (Cons i "is")
  let ?s' = "fst (step P i s)"
  have len: "length (logs (page ?s')) \<le> 200"
    using Cons.prems
    by (simp add: step_logs length_slice_from_end split: input.splits option.splits)
  have "logs (page (fst (run P (i # is) (s, cs)))) =
        logs (page (fst (run P is (?s', cs @ snd (step P i s)))))"
    by (simp add: case_prod_beta)
  also have "\<dots> = slice_from_end 200 (logs (page ?s') @ delivered P is ?s')"
    using Cons.IH [OF len] .
  also have "\<dots> = slice_from_end 200 (logs (page s) @ delivered P (i # is) s)"
    by (simp add: step_logs slice_from_end_snoc split: input.splits option.splits)
  finally show ?case .
qed

lemma mount_logs: "logs (page (fst (mount pid))) = []"
  by (simp add: mount_def initial_page_def Let_def split: option.splits)

lemma ws_onmessage_keeps:
  "selectedFile (fst (ws_onmessage P cl raw st)) = selectedFile st \<and>
   selectedFileRef (fst (ws_onmessage P cl raw st)) = selectedFileRef st \<and>
   version (fst (ws_onmessage P cl raw st)) = version st"
  by (auto simp add: ws_onmessage_def onmessage_try_def Let_def
      split: option.splits sum.splits prod.splits)

lemma fetchFiles_resume_keeps:
  "selectedFile (fst (fetchFiles_resume P out st)) = selectedFile st \<and>
   selectedFileRef (fst (fetchFiles_resume P out st)) = selectedFileRef st \<and>
   version (fst (fetchFiles_resume P out st)) = version st \<and>
   fileContent (fst (fetchFiles_resume P out st)) = fileContent st \<and>
   activeTab (fst (fetchFiles_resume P out st)) = activeTab st"
  by (simp add: fetchFiles_resume_def split: fetch_outcome.splits option.splits)

lemma fetchStatus_resume_keeps:
  "selectedFile (fst (fetchStatus_resume P out st)) = selectedFile st \<and>
   selectedFileRef (fst (fetchStatus_resume P out st)) = selectedFileRef st \<and>
   version (fst (fetchStatus_resume P out st)) = version st"
  by (simp add: fetchStatus_resume_def split: fetch_outcome.splits option.splits sum.splits)

lemma fetchFileContent_resume_keeps:
  "selectedFile (fst (fetchFileContent_resume out st)) = selectedFile st \<and>
   selectedFileRef (fst (fetchFileContent_resume out st)) = selectedFileRef st \<and>
   version (fst (fetchFileContent_resume out st)) = version st"
  by (simp add: fetchFileContent_resume_def split: fetch_outcome.splits)

lemma commit_synced:
  assumes "synced old"
    and "selectedFileRef (page new) = selectedFileRef (page old)"
    and "socket new = socket old"
  shows "synced (fst (commit old new))"
  using assms
  by (cases "projectId new"; cases "projectId old")
     (auto simp add: synced_def commit_def run_effects_def render_closure_def Let_def)

lemma synced_mount: "synced (fst (mount pid))"
  by (cases pid) (simp_all add: synced_def mount_def initial_page_def render_closure_def Let_def)

lemma synced_step: "synced s \<Longrightarrow> synced (fst (step P i s))"
proof (cases i)
  case (EditorChange nv)
  assume "synced s"
  with EditorChange show ?thesis
    by (cases "editor_shown s") (simp_all add: synced_def render_closure_def)
next
  case (WsMessage raw)
  assume a: "synced s"
  show ?thesis
  proof (cases "socket s")
    case None
    with WsMessage a show ?thesis by simp
  next
    case (Some cl)
    have "synced (fst (commit s (s\<lparr>page := fst (ws_onmessage P cl raw (page s))\<rparr>)))"
      by (rule commit_synced [OF a]) (simp_all add: ws_onmessage_keeps)
    with WsMessage Some show ?thesis by (simp add: case_prod_beta)
  qed
qed (simp_all add: case_prod_beta commit_synced fetchFiles_resume_keeps
      fetchStatus_resume_keeps fetchFileContent_resume_keeps)

lemma synced_run: "synced s \<Longrightarrow> synced (fst (run P is (s, cs)))"
  by (induction "is" arbitrary: s cs) (simp_all add: case_prod_beta synced_step)

lemma synced_reachable: "synced (fst (run P is (mount pid)))"
  using synced_run [OF synced_mount, of P "is" pid "snd (mount pid)"] by simp

lemma commit_same_cmds:
  "projectId new = projectId old \<Longrightarrow> selectedFile (page new) = selectedFile (page old) \<Longrightarrow>
   version (page new) = version (page old) \<Longrightarrow> snd (commit old new) = []"
  by (simp add: commit_def run_effects_def Let_def split: prod.splits)

lemma commit_page_same:
  "selectedFile (page new) = selectedFile (page old) \<Longrightarrow> page (fst (commit old new)) = page new"
  by (simp add: commit_page)

lemma commit_editor: "editorValue (fst (commit old new)) = editor_sync old new"
  by (simp add: commit_def case_prod_beta)

lemma handleSave_responded:
  assumes "projectId s = Some pid" and "pid \<noteq> []"
    and "selectedFile (page s) = Some f" and "f \<noteq> []"
  shows "handleSave P c (Responded r) files_out s =
     (fst (commit s (s\<lparr>page := fst (fetchFiles_resume P files_out (page s))\<rparr>)),
      [PlayClick, Fetch (PostFile pid f c), Fetch (GetFiles pid)],
      snd (fetchFiles_resume P files_out (page s)))"
proof -
  have "snd (commit s (s\<lparr>page := fst (fetchFiles_resume P files_out (page s))\<rparr>)) = []"
    by (rule commit_same_cmds) (simp_all add: fetchFiles_resume_keeps)
  with assms show ?thesis
    by (simp add: handleSave_def handleSave_start_def render_closure_def fetchFiles_start_def
        case_prod_beta)
qed

lemma handleSave_rejected:
  assumes "projectId s = Some pid" and "pid \<noteq> []"
    and "selectedFile (page s) = Some f" and "f \<noteq> []"
  shows "handleSave P c Rejected files_out s =
     (s, [PlayClick, Fetch (PostFile pid f c)], Threw NetworkError)"
  using assms by (simp add: handleSave_def handleSave_start_def render_closure_def)

lemma handleFix_returns: "snd (handleFix P cl st out) = Returned"
  by (simp add: handleFix_def Let_def split: option.splits prod.splits sum.splits)

lemma handleDeepReview_returns: "snd (handleDeepReview P cl sel out) = Returned"
  by (simp add: handleDeepReview_def split: option.splits)

lemma set_first_appearances: "set (first_appearances ks) = set ks"
  by (induction ks) auto

lemma distinct_first_appearances: "distinct (first_appearances ks)"
  by (induction ks) (auto simp add: distinct_removeAll)

lemma first_appearances_snoc:
  "first_appearances (ks @ [k]) =
     (if k \<in> set ks then first_appearances ks else first_appearances ks @ [k])"
  by (induction ks) (auto simp add: set_first_appearances)

lemma map_has_keys: "map_has (map (\<lambda>k. (k, f k)) ks) k = (k \<in> set ks)"
  by (induction ks) auto

lemma map_set_fresh:
  "k \<notin> set ks \<Longrightarrow> map_set (map (\<lambda>k. (k, f k)) ks) k v = map (\<lambda>k. (k, f k)) ks @ [(k, v)]"
  by (induction ks) auto

lemma map_push_fresh:
  "k \<notin> set ks \<Longrightarrow>
   map_push (map (\<lambda>k. (k, f k)) ks @ [(k, v)]) k x = map (\<lambda>k. (k, f k)) ks @ [(k, v @ [x])]"
  by (induction ks) auto

lemma map_push_known:
  "distinct ks \<Longrightarrow>
   map_push (map (\<lambda>k. (k, f k)) ks) k x =
     map (\<lambda>k'. (k', if k' = k then f k' @ [x] else f k')) ks"
  by (induction ks) auto

lemma add_step_cohorts:
  "add_step (map (\<lambda>k. (k, filter (\<lambda>s. group_key s = k) xs))
               (first_appearances (map group_key xs))) x =
   map (\<lambda>k. (k, filter (\<lambda>s. group_key s = k) (xs @ [x])))
       (first_appearances (map group_key (xs @ [x])))"
proof (cases "group_key x \<in> set (map group_key xs)")
  case True
  then show ?thesis
    by (simp add: add_step_def Let_def map_has_keys set_first_appearances
        first_appearances_snoc map_push_known distinct_first_appearances)
next
  case False
  then have fresh: "\<forall>s \<in> set xs. group_key s \<noteq> group_key x"
    by (metis imageI set_map)
  then have "filter (\<lambda>s. group_key s = group_key x) xs = []"
    by (simp add: filter_empty_conv)
  with False fresh show ?thesis
    by (auto simp add: add_step_def Let_def map_has_keys set_first_appearances
        first_appearances_snoc map_set_fresh map_push_fresh)
qed

section \<open>Log bounding\<close>

text \<open>
  C2. Whatever else happens to the page in between, after a run from the first render
  the log is the last 200 of the events delivered by the stream, in arrival order: all
  of them when there are at most 200, exactly the most recent 200 otherwise, so its
  length is the smaller of 200 and the number of delivered events.
\<close>

theorem log_bounding:
  "logs (page (fst (run JSON_parse ins (mount pid)))) =
     drop (length (delivered JSON_parse ins (fst (mount pid))) - 200)
       (delivered JSON_parse ins (fst (mount pid))) \<and>
   length (logs (page (fst (run JSON_parse ins (mount pid))))) =
     min 200 (length (delivered JSON_parse ins (fst (mount pid))))"
proof -
  let ?d = "delivered JSON_parse ins (fst (mount pid))"
  have "logs (page (fst (run JSON_parse ins (fst (mount pid), snd (mount pid))))) =
     slice_from_end 200 (logs (page (fst (mount pid))) @ ?d)"
    by (rule run_logs) (simp add: mount_logs)
  then have eq: "logs (page (fst (run JSON_parse ins (mount pid)))) = slice_from_end 200 ?d"
    by (simp add: mount_logs)
  have "length (slice_from_end 200 ?d) = min 200 (length ?d)"
    by (rule length_slice_from_end)
  with eq show ?thesis by (simp add: slice_from_end_def)
qed

section \<open>Stream messages\<close>

text \<open>
  C3. The message handler always returns normally. A payload that does not parse, and
  more generally every message that is not accepted (its parsed \<^verbatim>\<open>type\<close> is not the
  string "event"), leaves the state as it was and issues nothing. An accepted message is
  appended to the log and starts a status refresh.
\<close>

theorem stream_filtering:
  "snd (snd (ws_onmessage JSON_parse cl raw st)) = Returned \<and>
   (JSON_parse raw = None \<longrightarrow> ws_onmessage JSON_parse cl raw st = (st, [], Returned)) \<and>
   (\<not> accepted JSON_parse raw \<longrightarrow> ws_onmessage JSON_parse cl raw st = (st, [], Returned)) \<and>
   (accepted JSON_parse raw \<longrightarrow>
      logs (fst (ws_onmessage JSON_parse cl raw st)) =
        slice_from_end 199 (logs st) @ [the (JSON_parse raw)] \<and>
      take (length (fetchStatus_start cl)) (fst (snd (ws_onmessage JSON_parse cl raw st))) =
        fetchStatus_start cl)"
proof (intro conjI impI)
  show "snd (snd (ws_onmessage JSON_parse cl raw st)) = Returned"
    by (simp add: ws_onmessage_def split: prod.splits)
next
  assume "JSON_parse raw = None"
  then show "ws_onmessage JSON_parse cl raw st = (st, [], Returned)"
    by (simp add: ws_onmessage_def onmessage_try_def)
next
  assume "\<not> accepted JSON_parse raw"
  then show "ws_onmessage JSON_parse cl raw st = (st, [], Returned)"
    by (auto simp add: ws_onmessage_def onmessage_try_def accepted_def
        split: option.splits sum.splits)
next
  assume "accepted JSON_parse raw"
  then show "logs (fst (ws_onmessage JSON_parse cl raw st)) =
        slice_from_end 199 (logs st) @ [the (JSON_parse raw)]"
    by (simp add: ws_onmessage_logs)
next
  assume "accepted JSON_parse raw"
  then show "take (length (fetchStatus_start cl)) (fst (snd (ws_onmessage JSON_parse cl raw st))) =
        fetchStatus_start cl"
    by (auto simp add: ws_onmessage_def onmessage_try_def accepted_def Let_def
        split: option.splits sum.splits)
qed

text \<open>
  The three cases on a socket of project \<open>p\<close>, with a parser that knows two texts: a
  payload that does not parse, the payload \<^verbatim>\<open>null\<close>, and an event.
\<close>

theorem stream_filtering_witness:
  "[''{\"type\":\"event\"}'' \<mapsto> JObj [(''type'', JStr ''event'')], ''null'' \<mapsto> JNull]
      ''{oops'' = None \<and>
   ws_onmessage [''{\"type\":\"event\"}'' \<mapsto> JObj [(''type'', JStr ''event'')], ''null'' \<mapsto> JNull]
      \<lparr>cl_projectId = Some ''p'', cl_version = 1\<rparr> ''{oops'' initial_page =
      (initial_page, [], Returned) \<and>
   \<not> accepted [''{\"type\":\"event\"}'' \<mapsto> JObj [(''type'', JStr ''event'')], ''null'' \<mapsto> JNull]
      ''null'' \<and>
   ws_onmessage [''{\"type\":\"event\"}'' \<mapsto> JObj [(''type'', JStr ''event'')], ''null'' \<mapsto> JNull]
      \<lparr>cl_projectId = Some ''p'', cl_version = 1\<rparr> ''null'' initial_page =
      (initial_page, [], Returned) \<and>
   accepted [''{\"type\":\"event\"}'' \<mapsto> JObj [(''type'', JStr ''event'')], ''null'' \<mapsto> JNull]
      ''{\"type\":\"event\"}'' \<and>
   logs (fst (ws_onmessage
      [''{\"type\":\"event\"}'' \<mapsto> JObj [(''type'', JStr ''event'')], ''null'' \<mapsto> JNull]
      \<lparr>cl_projectId = Some ''p'', cl_version = 1\<rparr> ''{\"type\":\"event\"}'' initial_page)) =
      [JObj [(''type'', JStr ''event'')]]"
  using
    stream_filtering [of
      "[''{\"type\":\"event\"}'' \<mapsto> JObj [(''type'', JStr ''event'')], ''null'' \<mapsto> JNull]"
      "\<lparr>cl_projectId = Some ''p'', cl_version = 1\<rparr>" "''{oops''" initial_page]
    stream_filtering [of
      "[''{\"type\":\"event\"}'' \<mapsto> JObj [(''type'', JStr ''event'')], ''null'' \<mapsto> JNull]"
      "\<lparr>cl_projectId = Some ''p'', cl_version = 1\<rparr>" "''null''" initial_page]
    stream_filtering [of
      "[''{\"type\":\"event\"}'' \<mapsto> JObj [(''type'', JStr ''event'')], ''null'' \<mapsto> JNull]"
      "\<lparr>cl_projectId = Some ''p'', cl_version = 1\<rparr>" "''{\"type\":\"event\"}''" initial_page]
  by (simp add: accepted_def initial_page_def slice_from_end_def)

section \<open>Reads that fail\<close>

text \<open>
  C6. When the listing, the status or the content request is answered with a
  non-success status, the function returns without writing anything: the listing, the
  steps and status, and the content stay as they were, in the function and in the page.
\<close>

theorem read_failure_atomicity:
  assumes "\<not> ok r"
  shows "fetchFiles_resume JSON_parse (Responded r) st = (st, Returned) \<and>
         fetchStatus_resume JSON_parse (Responded r) st = (st, Returned) \<and>
         fetchFileContent_resume (Responded r) st = (st, Returned) \<and>
         page (fst (step JSON_parse (FilesSettled (Responded r)) s)) = page s \<and>
         page (fst (step JSON_parse (StatusSettled (Responded r)) s)) = page s \<and>
         page (fst (step JSON_parse (ContentSettled req (Responded r)) s)) = page s"
  using assms
  by (simp add: fetchFiles_resume_def fetchStatus_resume_def fetchFileContent_resume_def
      commit_page)

theorem read_failure_atomicity_witness:
  "\<not> ok \<lparr>ok = False, body = ''Not Found''\<rparr> \<and>
   fetchFiles_resume Map.empty (Responded \<lparr>ok = False, body = ''Not Found''\<rparr>) initial_page =
     (initial_page, Returned) \<and>
   fetchStatus_resume Map.empty (Responded \<lparr>ok = False, body = ''Not Found''\<rparr>) initial_page =
     (initial_page, Returned) \<and>
   fetchFileContent_resume (Responded \<lparr>ok = False, body = ''Not Found''\<rparr>) initial_page =
     (initial_page, Returned) \<and>
   page (fst (step Map.empty
     (ContentSettled (GetFile ''p'' ''A'' 1) (Responded \<lparr>ok = False, body = ''Not Found''\<rparr>))
     (fst (mount (Some ''p''))))) = page (fst (mount (Some ''p'')))"
  using read_failure_atomicity [where r = "\<lparr>ok = False, body = ''Not Found''\<rparr>"
      and JSON_parse = Map.empty and st = initial_page and s = "fst (mount (Some ''p''))"
      and req = "GetFile ''p'' ''A'' 1"]
  by simp

section \<open>Switching the project\<close>

text \<open>
  C10. A change of the project id writes no state variable: the log, the listing, the
  selection, the content, the version, the steps and the status are those of the
  previous project until a later response or event replaces them.
\<close>

theorem project_switch_keeps_state:
  "page (fst (step JSON_parse (Navigate pid) s)) = page s"
  by (simp add: commit_page)

section \<open>Late content\<close>

text \<open>
  C1, as the code has it. A content response with a success status always becomes the
  displayed content, whichever path and version it was requested for and whatever is
  selected when it arrives: the last response to arrive wins. A response with a
  non-success status leaves the content as it was. Neither changes the selection or the
  version.
\<close>

theorem content_fetch_last_resolved_wins:
  "(ok r \<longrightarrow>
      fileContent (page (fst (step JSON_parse (ContentSettled req (Responded r)) s))) = body r) \<and>
   (\<not> ok r \<longrightarrow>
      fileContent (page (fst (step JSON_parse (ContentSettled req (Responded r)) s))) =
        fileContent (page s)) \<and>
   selectedFile (page (fst (step JSON_parse (ContentSettled req (Responded r)) s))) =
     selectedFile (page s) \<and>
   version (page (fst (step JSON_parse (ContentSettled req (Responded r)) s))) =
     version (page s)"
  by (simp add: commit_page fetchFileContent_resume_def)

theorem content_fetch_last_resolved_wins_witness:
  "ok \<lparr>ok = True, body = ''text of A''\<rparr> \<and>
   fileContent (page (fst (step Map.empty
     (ContentSettled (GetFile ''p'' ''A'' 1) (Responded \<lparr>ok = True, body = ''text of A''\<rparr>))
     (fst (mount (Some ''p'')))))) = ''text of A'' \<and>
   \<not> ok \<lparr>ok = False, body = ''Not Found''\<rparr> \<and>
   fileContent (page (fst (step Map.empty
     (ContentSettled (GetFile ''p'' ''A'' 1) (Responded \<lparr>ok = False, body = ''Not Found''\<rparr>))
     (fst (mount (Some ''p'')))))) = []"
  using
    content_fetch_last_resolved_wins [where r = "\<lparr>ok = True, body = ''text of A''\<rparr>"
      and JSON_parse = Map.empty and s = "fst (mount (Some ''p''))"
      and req = "GetFile ''p'' ''A'' 1"]
    content_fetch_last_resolved_wins [where r = "\<lparr>ok = False, body = ''Not Found''\<rparr>"
      and JSON_parse = Map.empty and s = "fst (mount (Some ''p''))"
      and req = "GetFile ''p'' ''A'' 1"]
  by (simp add: mount_def initial_page_def render_closure_def Let_def)

text \<open>
  The claim as the specification states it fails. In project \<open>p\<close> the user selects A and
  then B, both at version 1, so that both requests are in flight. B's response arrives
  and is displayed. A's response arrives late: B is still selected, and the displayed
  content is now A's.
\<close>

theorem staleness_counterexample:
  "selectedFile (page (fst (run Map.empty
          [SelectFile (Some ''A''), SelectFile (Some ''B''),
           ContentSettled (GetFile ''p'' ''B'' 1) (Responded \<lparr>ok = True, body = ''text of B''\<rparr>)]
          (mount (Some ''p''))))) = Some ''B'' \<and>
   fileContent (page (fst (run Map.empty
          [SelectFile (Some ''A''), SelectFile (Some ''B''),
           ContentSettled (GetFile ''p'' ''B'' 1) (Responded \<lparr>ok = True, body = ''text of B''\<rparr>)]
          (mount (Some ''p''))))) = ''text of B'' \<and>
   snd (run Map.empty
          [SelectFile (Some ''A''), SelectFile (Some ''B''),
           ContentSettled (GetFile ''p'' ''B'' 1) (Responded \<lparr>ok = True, body = ''text of B''\<rparr>)]
          (mount (Some ''p''))) =
     [Fetch (GetFiles ''p''), Fetch (GetStatus ''p''), OpenSocket ''p'',
      PlayHover, Fetch (GetFile ''p'' ''A'' 1), PlayHover, Fetch (GetFile ''p'' ''B'' 1)] \<and>
   selectedFile (page (fst (run Map.empty
          [SelectFile (Some ''A''), SelectFile (Some ''B''),
           ContentSettled (GetFile ''p'' ''B'' 1) (Responded \<lparr>ok = True, body = ''text of B''\<rparr>),
           ContentSettled (GetFile ''p'' ''A'' 1) (Responded \<lparr>ok = True, body = ''text of A''\<rparr>)]
          (mount (Some ''p''))))) = Some ''B'' \<and>
   fileContent (page (fst (run Map.empty
          [SelectFile (Some ''A''), SelectFile (Some ''B''),
           ContentSettled (GetFile ''p'' ''B'' 1) (Responded \<lparr>ok = True, body = ''text of B''\<rparr>),
           ContentSettled (GetFile ''p'' ''A'' 1) (Responded \<lparr>ok = True, body = ''text of A''\<rparr>)]
          (mount (Some ''p''))))) = ''text of A''"
  by (simp add: mount_def initial_page_def render_closure_def commit_def run_effects_def
      editor_sync_def fetchFiles_start_def fetchStatus_start_def fetchFileContent_start_def
      fetchFileContent_resume_def Let_def)

section \<open>Selecting no file\<close>

text \<open>
  C5, as the code has it. Selecting null issues nothing but the hover sound, so no
  content request. A content response with a success status that arrives while nothing
  is selected is still written to the content state; the selection stays null, and as
  long as it does the Editor renders its placeholder.
\<close>

theorem null_selection:
  "snd (step JSON_parse (SelectFile None) s) = [PlayHover] \<and>
   filter is_content_fetch (snd (step JSON_parse (SelectFile None) s)) = [] \<and>
   (selectedFile (page s) = None \<and> ok r \<longrightarrow>
      fileContent (page (fst (step JSON_parse (ContentSettled req (Responded r)) s))) = body r \<and>
      selectedFile (page (fst (step JSON_parse (ContentSettled req (Responded r)) s))) = None \<and>
      editor_shown (fst (step JSON_parse (ContentSettled req (Responded r)) s)) = None)"
proof -
  have c: "snd (step JSON_parse (SelectFile None) s) = [PlayHover]"
    by (simp add: commit_def run_effects_def Let_def case_prod_beta)
  have "selectedFile (page s) = None \<and> ok r \<longrightarrow>
      fileContent (page (fst (step JSON_parse (ContentSettled req (Responded r)) s))) = body r \<and>
      selectedFile (page (fst (step JSON_parse (ContentSettled req (Responded r)) s))) = None \<and>
      editor_shown (fst (step JSON_parse (ContentSettled req (Responded r)) s)) = None"
    by (simp add: commit_page fetchFileContent_resume_def editor_shown_def)
  with c show ?thesis by simp
qed

theorem null_selection_witness:
  "selectedFile (page (fst (mount (Some ''p'')))) = None \<and>
   ok \<lparr>ok = True, body = ''text of A''\<rparr> \<and>
   snd (step Map.empty (SelectFile None) (fst (mount (Some ''p'')))) = [PlayHover] \<and>
   fileContent (page (fst (step Map.empty
     (ContentSettled (GetFile ''p'' ''A'' 1) (Responded \<lparr>ok = True, body = ''text of A''\<rparr>))
     (fst (mount (Some ''p'')))))) = ''text of A''"
  using null_selection [where r = "\<lparr>ok = True, body = ''text of A''\<rparr>"
      and JSON_parse = Map.empty and s = "fst (mount (Some ''p''))"
      and req = "GetFile ''p'' ''A'' 1"]
  by (simp add: mount_def initial_page_def render_closure_def Let_def)

text \<open>
  The second half of the claim as stated fails. The user selects A in project \<open>p\<close>,
  which puts the request for A at version 1 in flight, then selects null. The content
  is still empty. When A's response arrives, with nothing selected, it becomes the
  content, behind the placeholder; it is what the Editor shows once the user selects B.
\<close>

theorem null_selection_counterexample:
  "selectedFile (page (fst (run Map.empty
          [SelectFile (Some ''A''), SelectFile None] (mount (Some ''p''))))) = None \<and>
   fileContent (page (fst (run Map.empty
          [SelectFile (Some ''A''), SelectFile None] (mount (Some ''p''))))) = [] \<and>
   snd (run Map.empty [SelectFile (Some ''A''), SelectFile None] (mount (Some ''p''))) =
     [Fetch (GetFiles ''p''), Fetch (GetStatus ''p''), OpenSocket ''p'',
      PlayHover, Fetch (GetFile ''p'' ''A'' 1), PlayHover] \<and>
   selectedFile (page (fst (run Map.empty
          [SelectFile (Some ''A''), SelectFile None,
           ContentSettled (GetFile ''p'' ''A'' 1) (Responded \<lparr>ok = True, body = ''text of A''\<rparr>)]
          (mount (Some ''p''))))) = None \<and>
   fileContent (page (fst (run Map.empty
          [SelectFile (Some ''A''), SelectFile None,
           ContentSettled (GetFile ''p'' ''A'' 1) (Responded \<lparr>ok = True, body = ''text of A''\<rparr>)]
          (mount (Some ''p''))))) = ''text of A'' \<and>
   editor_shown (fst (run Map.empty
          [SelectFile (Some ''A''), SelectFile None,
           ContentSettled (GetFile ''p'' ''A'' 1) (Responded \<lparr>ok = True, body = ''text of A''\<rparr>)]
          (mount (Some ''p'')))) = None \<and>
   editor_shown (fst (run Map.empty
          [SelectFile (Some ''A''), SelectFile None,
           ContentSettled (GetFile ''p'' ''A'' 1) (Responded \<lparr>ok = True, body = ''text of A''\<rparr>),
           SelectFile (Some ''B'')]
          (mount (Some ''p'')))) = Some ''text of A''"
  by (simp add: mount_def initial_page_def render_closure_def commit_def run_effects_def
      editor_sync_def fetchFiles_start_def fetchStatus_start_def fetchFileContent_start_def
      fetchFileContent_resume_def editor_shown_def Let_def)

section \<open>Events that name a file\<close>

text \<open>
  C4, as the code has it. In any state reached from the first render with the stream of
  project \<open>pid\<close> open, an accepted event always starts a status refresh. When its
  \<^verbatim>\<open>artifact_path\<close> is truthy it also starts a listing refresh, and exactly one content
  request, for the selected path at the current version, when \<^verbatim>\<open>artifact_path\<close> is the
  path selected at that moment (the selection of the current state, not the one at the
  time the socket was opened), and none otherwise. When \<^verbatim>\<open>artifact_path\<close> is missing or
  falsy, the empty string included, the status refresh is all.
\<close>

theorem artifact_refetch:
  assumes "projectId (fst (run JSON_parse ins (mount pid0))) = Some pid" and "pid \<noteq> []"
    and "JSON_parse raw = Some data"
    and "get_prop data ''type'' = Inr (JStr ''event'')"
    and "get_prop data ''artifact_path'' = Inr ap"
  shows "snd (step JSON_parse (WsMessage raw) (fst (run JSON_parse ins (mount pid0)))) =
     (if truthy ap
      then [Fetch (GetStatus pid), Fetch (GetFiles pid), PlaySuccess] @
           (case selectedFile (page (fst (run JSON_parse ins (mount pid0)))) of
              None \<Rightarrow> []
            | Some sel \<Rightarrow>
                if ap = JStr sel
                then [Fetch (GetFile pid sel (version (page (fst (run JSON_parse ins (mount pid0))))))]
                else [])
      else [Fetch (GetStatus pid)])"
proof -
  let ?s = "fst (run JSON_parse ins (mount pid0))"
  let ?cl = "render_closure ?s"
  have sy: "synced ?s" by (rule synced_reachable)
  with assms(1,2) have sock: "socket ?s = Some ?cl"
    by (simp add: synced_def)
  from sy have ref: "selectedFileRef (page ?s) = selectedFile (page ?s)"
    by (simp add: synced_def)
  have nocmd: "snd (commit ?s (?s\<lparr>page := fst (ws_onmessage JSON_parse ?cl raw (page ?s))\<rparr>)) = []"
    by (rule commit_same_cmds) (simp_all add: ws_onmessage_keeps)
  have "snd (step JSON_parse (WsMessage raw) ?s) =
        fst (snd (ws_onmessage JSON_parse ?cl raw (page ?s)))"
    using sock nocmd by (simp add: case_prod_beta)
  also have "\<dots> =
     (if truthy ap
      then [Fetch (GetStatus pid), Fetch (GetFiles pid), PlaySuccess] @
           (case selectedFile (page ?s) of
              None \<Rightarrow> []
            | Some sel \<Rightarrow>
                if ap = JStr sel then [Fetch (GetFile pid sel (version (page ?s)))] else [])
      else [Fetch (GetStatus pid)])"
    using assms ref
    by (auto simp add: ws_onmessage_def onmessage_try_def render_closure_def Let_def
        fetchStatus_start_def fetchFiles_start_def fetchFileContent_start_def
        split: option.splits)
  finally show ?thesis .
qed

text \<open>
  The socket is opened with nothing selected and version 1; the user then selects A and
  moves to version 2; an event for A arrives.
\<close>

theorem artifact_refetch_witness:
  "projectId (fst (run
      [''{\"type\":\"event\",\"artifact_path\":\"A\"}'' \<mapsto>
         JObj [(''type'', JStr ''event''), (''artifact_path'', JStr ''A'')]]
      [SelectFile (Some ''A''), VersionChange 2] (mount (Some ''p'')))) = Some ''p'' \<and>
   ''p'' \<noteq> [] \<and>
   [''{\"type\":\"event\",\"artifact_path\":\"A\"}'' \<mapsto>
         JObj [(''type'', JStr ''event''), (''artifact_path'', JStr ''A'')]]
      ''{\"type\":\"event\",\"artifact_path\":\"A\"}'' =
     Some (JObj [(''type'', JStr ''event''), (''artifact_path'', JStr ''A'')]) \<and>
   get_prop (JObj [(''type'', JStr ''event''), (''artifact_path'', JStr ''A'')]) ''type'' =
     Inr (JStr ''event'') \<and>
   get_prop (JObj [(''type'', JStr ''event''), (''artifact_path'', JStr ''A'')])
     ''artifact_path'' = Inr (JStr ''A'') \<and>
   snd (step
      [''{\"type\":\"event\",\"artifact_path\":\"A\"}'' \<mapsto>
         JObj [(''type'', JStr ''event''), (''artifact_path'', JStr ''A'')]]
      (WsMessage ''{\"type\":\"event\",\"artifact_path\":\"A\"}'')
      (fst (run
        [''{\"type\":\"event\",\"artifact_path\":\"A\"}'' \<mapsto>
           JObj [(''type'', JStr ''event''), (''artifact_path'', JStr ''A'')]]
        [SelectFile (Some ''A''), VersionChange 2] (mount (Some ''p''))))) =
     [Fetch (GetStatus ''p''), Fetch (GetFiles ''p''), PlaySuccess,
      Fetch (GetFile ''p'' ''A'' 2)]"
  using artifact_refetch [where JSON_parse =
        "[''{\"type\":\"event\",\"artifact_path\":\"A\"}'' \<mapsto>
           JObj [(''type'', JStr ''event''), (''artifact_path'', JStr ''A'')]]"
      and ins = "[SelectFile (Some ''A''), VersionChange 2]" and ?pid0.0 = "Some ''p''"
      and pid = "''p''" and raw = "''{\"type\":\"event\",\"artifact_path\":\"A\"}''"
      and data = "JObj [(''type'', JStr ''event''), (''artifact_path'', JStr ''A'')]"
      and ap = "JStr ''A''"]
  by (simp add: mount_def initial_page_def render_closure_def commit_def run_effects_def
      editor_sync_def fetchFiles_start_def fetchStatus_start_def fetchFileContent_start_def
      Let_def)

text \<open>
  The claim as stated fails for an accepted event that carries the empty string as its
  \<^verbatim>\<open>artifact_path\<close>: no listing refresh is started.
\<close>

theorem artifact_refetch_counterexample:
  "accepted
     [''{\"type\":\"event\",\"artifact_path\":\"\"}'' \<mapsto>
        JObj [(''type'', JStr ''event''), (''artifact_path'', JStr [])]]
     ''{\"type\":\"event\",\"artifact_path\":\"\"}'' \<and>
   get_prop (JObj [(''type'', JStr ''event''), (''artifact_path'', JStr [])]) ''artifact_path'' =
     Inr (JStr []) \<and>
   snd (step
     [''{\"type\":\"event\",\"artifact_path\":\"\"}'' \<mapsto>
        JObj [(''type'', JStr ''event''), (''artifact_path'', JStr [])]]
     (WsMessage ''{\"type\":\"event\",\"artifact_path\":\"\"}'')
     (fst (mount (Some ''p'')))) = [Fetch (GetStatus ''p'')]"
  by (simp add: accepted_def mount_def initial_page_def render_closure_def commit_def
      run_effects_def editor_sync_def fetchStatus_start_def ws_onmessage_def onmessage_try_def
      slice_from_end_def Let_def)

section \<open>Saving\<close>

text \<open>
  C8. With a project and a file selected and the Editor holding the buffer \<open>v\<close>, a save
  that the server answers (with any status, and however the listing request that
  follows settles) posts \<open>v\<close>, requests the listing, and leaves both the buffer and the
  content state as they were.
\<close>

theorem save_keeps_buffer:
  assumes "projectId s = Some pid" and "pid \<noteq> []"
    and "selectedFile (page s) = Some f" and "f \<noteq> []"
    and "editorValue s = Some v" and "activeTab (page s) = EditorTab"
  shows "fst (snd (editor_handleSave JSON_parse (Responded r) files_out s)) =
           [PlayClick, Fetch (PostFile pid f v), Fetch (GetFiles pid)] \<and>
         editorValue (fst (editor_handleSave JSON_parse (Responded r) files_out s)) = Some v \<and>
         fileContent (page (fst (editor_handleSave JSON_parse (Responded r) files_out s))) =
           fileContent (page s)"
proof -
  let ?new = "s\<lparr>page := fst (fetchFiles_resume JSON_parse files_out (page s))\<rparr>"
  have e: "editor_handleSave JSON_parse (Responded r) files_out s =
     (fst (commit s ?new), [PlayClick, Fetch (PostFile pid f v), Fetch (GetFiles pid)],
      snd (fetchFiles_resume JSON_parse files_out (page s)))"
    using assms by (simp add: editor_handleSave_def handleSave_responded)
  have p: "page (fst (commit s ?new)) = fst (fetchFiles_resume JSON_parse files_out (page s))"
    using commit_page_same [of ?new s] by (simp add: fetchFiles_resume_keeps)
  have v: "editorValue (fst (commit s ?new)) = Some v"
    using assms(5,6) by (simp add: commit_editor editor_sync_def fetchFiles_resume_keeps)
  show ?thesis
    using e p v by (simp add: fetchFiles_resume_keeps)
qed

theorem save_keeps_buffer_witness:
  "projectId (fst (run Map.empty [SelectFile (Some ''A''), EditorChange (Some ''draft'')]
      (mount (Some ''p'')))) = Some ''p'' \<and>
   ''p'' \<noteq> [] \<and>
   selectedFile (page (fst (run Map.empty [SelectFile (Some ''A''), EditorChange (Some ''draft'')]
      (mount (Some ''p''))))) = Some ''A'' \<and>
   ''A'' \<noteq> [] \<and>
   editorValue (fst (run Map.empty [SelectFile (Some ''A''), EditorChange (Some ''draft'')]
      (mount (Some ''p'')))) = Some ''draft'' \<and>
   activeTab (page (fst (run Map.empty [SelectFile (Some ''A''), EditorChange (Some ''draft'')]
      (mount (Some ''p''))))) = EditorTab \<and>
   fst (snd (editor_handleSave Map.empty (Responded \<lparr>ok = True, body = ''saved''\<rparr>)
      (Responded \<lparr>ok = False, body = ''denied''\<rparr>)
      (fst (run Map.empty [SelectFile (Some ''A''), EditorChange (Some ''draft'')]
        (mount (Some ''p'')))))) =
     [PlayClick, Fetch (PostFile ''p'' ''A'' ''draft''), Fetch (GetFiles ''p'')] \<and>
   editorValue (fst (editor_handleSave Map.empty (Responded \<lparr>ok = True, body = ''saved''\<rparr>)
      (Responded \<lparr>ok = False, body = ''denied''\<rparr>)
      (fst (run Map.empty [SelectFile (Some ''A''), EditorChange (Some ''draft'')]
        (mount (Some ''p'')))))) = Some ''draft''"
  using save_keeps_buffer [where JSON_parse = Map.empty
      and s = "fst (run Map.empty [SelectFile (Some ''A''), EditorChange (Some ''draft'')]
        (mount (Some ''p'')))"
      and pid = "''p''" and f = "''A''" and v = "''draft''"
      and r = "\<lparr>ok = True, body = ''saved''\<rparr>"
      and files_out = "Responded \<lparr>ok = False, body = ''denied''\<rparr>"]
  by (simp add: mount_def initial_page_def render_closure_def commit_def run_effects_def
      editor_sync_def editor_shown_def fetchFiles_start_def fetchStatus_start_def
      fetchFileContent_start_def Let_def)

text \<open>
  What does hold of the write actions. With a project and a file selected, every save
  posts to the save endpoint, and when the POST is answered, with whatever status, the
  listing is requested next. The fix and the deep review return normally however their
  request settles: both wrap it in \<^verbatim>\<open>try ... catch\<close> and log.
\<close>

lemma answered_save_refreshes:
  "(projectId s = Some pid \<and> pid \<noteq> [] \<and> selectedFile (page s) = Some f \<and> f \<noteq> [] \<longrightarrow>
      take 2 (fst (snd (handleSave JSON_parse c post_out files_out s))) =
        [PlayClick, Fetch (PostFile pid f c)] \<and>
      fst (snd (handleSave JSON_parse c (Responded r) files_out s)) =
        [PlayClick, Fetch (PostFile pid f c), Fetch (GetFiles pid)]) \<and>
   snd (handleFix JSON_parse cl st out) = Returned \<and>
   snd (handleDeepReview JSON_parse cl sel out) = Returned"
proof -
  have "take 2 (fst (snd (handleSave JSON_parse c post_out files_out s))) =
        [PlayClick, Fetch (PostFile pid f c)]"
    if "projectId s = Some pid" "pid \<noteq> []" "selectedFile (page s) = Some f" "f \<noteq> []"
    using that by (cases post_out) (simp_all add: handleSave_responded handleSave_rejected)
  then show ?thesis
    by (simp add: handleSave_responded handleFix_returns handleDeepReview_returns)
qed

text \<open>
  C7. The claim (a save is always followed by a listing refresh whatever its outcome,
  and a failure of a write is contained at the action) is what the sibling actions do
  and what \<^verbatim>\<open>handleSave\<close> misses. In project \<open>p\<close> with file A loaded, the request of each
  write action is rejected (no response at all). The deep review and the fix log the
  error and return. The save, which awaits its POST outside any \<^verbatim>\<open>try\<close>, throws, and
  the listing request that should follow is never issued.
\<close>

theorem save_rejected_post_escapes:
  "projectId (fst (run Map.empty
      [SelectFile (Some ''A''),
       ContentSettled (GetFile ''p'' ''A'' 1) (Responded \<lparr>ok = True, body = ''text of A''\<rparr>)]
      (mount (Some ''p'')))) = Some ''p'' \<and>
   selectedFile (page (fst (run Map.empty
      [SelectFile (Some ''A''),
       ContentSettled (GetFile ''p'' ''A'' 1) (Responded \<lparr>ok = True, body = ''text of A''\<rparr>)]
      (mount (Some ''p''))))) = Some ''A'' \<and>
   handleDeepReview Map.empty \<lparr>cl_projectId = Some ''p'', cl_version = 1\<rparr> (Some ''A'') Rejected =
     ([PlayClick, Fetch (PostReview ''p'' [''A'']), ConsoleError NetworkError], Returned) \<and>
   handleFix Map.empty \<lparr>cl_projectId = Some ''p'', cl_version = 1\<rparr>
     (page (fst (run Map.empty
        [SelectFile (Some ''A''),
         ContentSettled (GetFile ''p'' ''A'' 1) (Responded \<lparr>ok = True, body = ''text of A''\<rparr>)]
        (mount (Some ''p''))))) Rejected =
     ([PlayClick,
       Fetch (PostChat ''p'' (fix_prompt ''A'' ''text of A'')
         [\<lparr>role = ''user'', content = fix_prompt ''A'' ''text of A''\<rparr>]),
       ConsoleError NetworkError], Returned) \<and>
   fst (snd (handleSave Map.empty ''new text'' Rejected (Responded \<lparr>ok = True, body = ''[]''\<rparr>)
     (fst (run Map.empty
        [SelectFile (Some ''A''),
         ContentSettled (GetFile ''p'' ''A'' 1) (Responded \<lparr>ok = True, body = ''text of A''\<rparr>)]
        (mount (Some ''p'')))))) =
     [PlayClick, Fetch (PostFile ''p'' ''A'' ''new text'')] \<and>
   snd (snd (handleSave Map.empty ''new text'' Rejected (Responded \<lparr>ok = True, body = ''[]''\<rparr>)
     (fst (run Map.empty
        [SelectFile (Some ''A''),
         ContentSettled (GetFile ''p'' ''A'' 1) (Responded \<lparr>ok = True, body = ''text of A''\<rparr>)]
        (mount (Some ''p'')))))) = Threw NetworkError"
  by (simp add: mount_def initial_page_def render_closure_def commit_def run_effects_def
      editor_sync_def fetchFiles_start_def fetchStatus_start_def fetchFileContent_start_def
      fetchFileContent_resume_def handleSave_def handleSave_start_def handleDeepReview_def
      handleFix_def handleChat_def Let_def)

section \<open>Cohorts\<close>

text \<open>
  C9, as the code has it. The key of a step is its \<^verbatim>\<open>parallel_group\<close> when that is a
  non-empty string, its own id otherwise. The cohorts are the classes of steps with the
  same key, each in the order of the step list, and they come in the order in which
  their keys first appear in the step list.
\<close>

theorem cohort_formation:
  "group_steps xs =
     map (\<lambda>k. (k, filter (\<lambda>s. group_key s = k) xs)) (first_appearances (map group_key xs)) \<and>
   groupsArray xs =
     map (\<lambda>k. filter (\<lambda>s. group_key s = k) xs) (first_appearances (map group_key xs))"
proof -
  have g: "group_steps xs =
     map (\<lambda>k. (k, filter (\<lambda>s. group_key s = k) xs)) (first_appearances (map group_key xs))"
  proof (induction xs rule: rev_induct)
    case Nil
    then show ?case by (simp add: group_steps_def)
  next
    case (snoc x xs)
    have "group_steps (xs @ [x]) = add_step (group_steps xs) x"
      by (simp add: group_steps_def)
    with snoc show ?case by (simp only: add_step_cohorts)
  qed
  then show ?thesis by (simp add: groupsArray_def comp_def)
qed

text \<open>
  The claim as stated fails for two steps whose \<^verbatim>\<open>parallel_group\<close> is the same empty
  string: each is keyed by its own id, and they land in different cohorts.
\<close>

theorem cohort_counterexample:
  "parallel_group \<lparr>step_id = ''a'', step_name = ''plan'', step_agent = ''dev'',
       step_status = ''done'', parallel_group = Some []\<rparr> =
   parallel_group \<lparr>step_id = ''b'', step_name = ''code'', step_agent = ''dev'',
       step_status = ''done'', parallel_group = Some []\<rparr> \<and>
   groupsArray
     [\<lparr>step_id = ''a'', step_name = ''plan'', step_agent = ''dev'',
       step_status = ''done'', parallel_group = Some []\<rparr>,
      \<lparr>step_id = ''b'', step_name = ''code'', step_agent = ''dev'',
       step_status = ''done'', parallel_group = Some []\<rparr>] =
     [[\<lparr>step_id = ''a'', step_name = ''plan'', step_agent = ''dev'',
        step_status = ''done'', parallel_group = Some []\<rparr>],
      [\<lparr>step_id = ''b'', step_name = ''code'', step_agent = ''dev'',
        step_status = ''done'', parallel_group = Some []\<rparr>]]"
  by (simp add: groupsArray_def group_steps_def add_step_def group_key_def Let_def)

end
